theory Spec2Isabelle
  imports Main "HOL-Library.Char_ord" "HOL-Library.List_Lexorder"
begin

section \<open>Errors and the result envelope\<close>

text \<open>
  Values that the actions throw or that the validator returns. \<open>Error msg\<close> is the
  JavaScript \<open>new Error(msg)\<close> of the source, \<open>SyntaxError\<close> is what
  \<open>new RegExp\<close> throws on an invalid pattern.
\<close>

datatype error =
    ValidationError
  | UnauthorizedError
  | SyntaxError
  | Error string

datatype 'a ActionResponse = Success 'a | ErrorResponse error

text \<open>
  Modelled from the spec: the error normalizer \<open>handleError\<close> (lib/handlers/error) is
  not among the sources. The spec describes it as converting any failure into the
  uniform envelope \<open>{ success: false, error }\<close>; the envelope keeps the failure it was
  built from.
\<close>

definition handleError :: "error \<Rightarrow> 'a ActionResponse" where
  "handleError e = ErrorResponse e"

text \<open>
  Modelled from the spec: the request validator \<open>action\<close> (lib/handlers/action) is not
  among the sources. The spec: it checks the parameters against a schema and optionally
  enforces an authenticated-session precondition, returning either the validated
  parameters plus the caller identity or a structured failure. The schema is a
  parameter (lib/validations is not among the sources either); \<open>caller\<close> is the
  identity of the authenticated session, \<open>None\<close> when there is none.
\<close>

definition action :: "'p \<Rightarrow> ('p \<Rightarrow> bool) \<Rightarrow> bool \<Rightarrow> string option \<Rightarrow> error + ('p \<times> string option)" where
  "action params schema authorize caller =
     (if \<not> schema params then Inl ValidationError
      else if authorize \<and> caller = None then Inl UnauthorizedError
      else Inr (params, caller))"

section \<open>What the code takes from its platform\<close>

text \<open>
  Three things the actions use are not code of the repository, and the sources pin no
  version of them. They are parameters of the embedding, so that every theorem
  stated for a platform \<open>P\<close> holds for whatever the platform does.
  \<^item> \<open>RegExp_i P src\<close> is \<open>new RegExp(src, "i")\<close> as the store uses it in a \<open>$regex\<close>
    filter: the error thrown when the pattern is invalid, or else the predicate that
    says which names the pattern matches.
  \<^item> \<open>toLowerCase P s\<close> is \<open>s.toLowerCase()\<close>.
  \<^item> \<open>push_depopulates P\<close> says what \<open>push\<close> does to a populated array of the document
    library: in its newer versions pushing an id turns the whole array back into ids,
    in its older ones the array stays populated and the id is wrapped in a document
    of its own.
\<close>

record platform =
  RegExp_i :: "string \<Rightarrow> error + (string \<Rightarrow> bool)"
  toLowerCase :: "string \<Rightarrow> string"
  push_depopulates :: bool

section \<open>The document store\<close>

text \<open>
  Object ids are natural numbers. A tag carries its name and the counter \<open>questions\<close>;
  a question carries title, content, author, the list of tag ids and the counters
  that other parts of the application maintain. A join record of the collection
  TagQuestion is the pair (tag id, question id). Collections are lists in insertion
  order, so that "the first matching document" is defined.
\<close>

record tag =
  t_id :: nat
  t_name :: string
  t_questions :: int
  t_createdAt :: nat

record question =
  q_id :: nat
  q_title :: string
  q_content :: string
  q_author :: string
  q_tags :: "nat list"
  q_views :: nat
  q_answers :: nat
  q_upvotes :: nat
  q_downvotes :: nat

record db =
  Tags :: "tag list"
  Questions :: "question list"
  TagQuestions :: "(nat \<times> nat) list"

text \<open>
  The session methods the actions call, in call order, are logged next to the
  committed database. Writes made with \<open>{ session }\<close> go to a working copy of the
  database; \<open>commitTransaction\<close> makes the working copy the committed database, and
  nothing else does.
\<close>

datatype session_call =
  StartSession | StartTransaction | CommitTransaction | AbortTransaction | EndSession

record world =
  database :: db
  session_calls :: "session_call list"
  clock :: nat

definition startSession :: "world \<Rightarrow> world" where
  "startSession w = w\<lparr>session_calls := session_calls w @ [StartSession]\<rparr>"

definition startTransaction :: "world \<Rightarrow> world" where
  "startTransaction w = w\<lparr>session_calls := session_calls w @ [StartTransaction]\<rparr>"

definition commitTransaction :: "db \<Rightarrow> world \<Rightarrow> world" where
  "commitTransaction d w = w\<lparr>database := d, session_calls := session_calls w @ [CommitTransaction]\<rparr>"

definition abortTransaction :: "world \<Rightarrow> world" where
  "abortTransaction w = w\<lparr>session_calls := session_calls w @ [AbortTransaction]\<rparr>"

definition endSession :: "world \<Rightarrow> world" where
  "endSession w = w\<lparr>session_calls := session_calls w @ [EndSession]\<rparr>"

text \<open>A new object id is larger than every id that occurs in the database.\<close>

definition all_ids :: "db \<Rightarrow> nat list" where
  "all_ids d =
     map t_id (Tags d) @ map q_id (Questions d) @ concat (map q_tags (Questions d))
       @ map fst (TagQuestions d) @ map snd (TagQuestions d)"

definition new_oid :: "db \<Rightarrow> nat" where
  "new_oid d = Suc (fold max (all_ids d) 0)"

fun update_first :: "('a \<Rightarrow> bool) \<Rightarrow> ('a \<Rightarrow> 'a) \<Rightarrow> 'a list \<Rightarrow> 'a list" where
  "update_first P f [] = []"
| "update_first P f (x # xs) = (if P x then f x # xs else x # update_first P f xs)"

text \<open>
  \<open>Tag.findOneAndUpdate({ name: { $regex: new RegExp(`^${tag}$`, "i") } },
  { $setOnInsert: { name: tag }, $inc: { questions: 1 } }, { upsert: true, new: true, session })\<close>:
  the pattern is the raw tag name between \<open>^\<close> and \<open>$\<close>. The first tag whose name the
  pattern matches gets its counter incremented; when there is none, a tag with the
  supplied name and counter 1 is inserted. The updated or inserted document is
  returned. Building the pattern can throw.
\<close>

definition Tag_findOneAndUpdate :: "platform \<Rightarrow> nat \<Rightarrow> string \<Rightarrow> db \<Rightarrow> error + (tag \<times> db)" where
  "Tag_findOneAndUpdate P now tag d =
     (case RegExp_i P (''^'' @ tag @ ''$'') of
        Inl e \<Rightarrow> Inl e
      | Inr matches \<Rightarrow>
          (case find (\<lambda>t. matches (t_name t)) (Tags d) of
             Some t \<Rightarrow>
               Inr (t\<lparr>t_questions := t_questions t + 1\<rparr>,
                    d\<lparr>Tags := update_first (\<lambda>t. matches (t_name t))
                                  (\<lambda>t. t\<lparr>t_questions := t_questions t + 1\<rparr>) (Tags d)\<rparr>)
           | None \<Rightarrow>
               (let t = \<lparr>t_id = new_oid d, t_name = tag, t_questions = 1, t_createdAt = now\<rparr>
                in Inr (t, d\<lparr>Tags := Tags d @ [t]\<rparr>))))"

text \<open>
  Modelled from the spec: the Question model (database/question.model) is not among
  the sources. Per the spec's data model a question has an author, a tag list that
  starts empty and counters maintained elsewhere; creating one without an author
  fails.
\<close>

definition Question_create :: "string \<Rightarrow> string \<Rightarrow> string option \<Rightarrow> db \<Rightarrow> error + (question \<times> db)" where
  "Question_create title content userId d =
     (case userId of
        None \<Rightarrow> Inl (Error ''Question validation failed'')
      | Some u \<Rightarrow>
          (let q = \<lparr>q_id = new_oid d, q_title = title, q_content = content, q_author = u,
                    q_tags = [], q_views = 0, q_answers = 0, q_upvotes = 0, q_downvotes = 0\<rparr>
           in Inr (q, d\<lparr>Questions := Questions d @ [q]\<rparr>)))"

definition TagQuestion_insertMany :: "(nat \<times> nat) list \<Rightarrow> db \<Rightarrow> db" where
  "TagQuestion_insertMany docs d = d\<lparr>TagQuestions := TagQuestions d @ docs\<rparr>"

text \<open>\<open>Question.findByIdAndUpdate(id, { $push: { tags: { $each: tagIds } } }, { session })\<close>\<close>

definition Question_push_tags :: "nat \<Rightarrow> nat list \<Rightarrow> db \<Rightarrow> db" where
  "Question_push_tags qid tagIds d =
     d\<lparr>Questions := update_first (\<lambda>q. q_id q = qid) (\<lambda>q. q\<lparr>q_tags := q_tags q @ tagIds\<rparr>) (Questions d)\<rparr>"

section \<open>createQuestion\<close>

record CreateQuestionParams =
  p_title :: string
  p_content :: string
  p_tags :: "string list"

text \<open>The loop \<open>for (const tag of tags)\<close> of createQuestion, with its two accumulators.\<close>

fun resolve_tags ::
  "platform \<Rightarrow> nat \<Rightarrow> string list \<Rightarrow> nat \<Rightarrow> db \<Rightarrow> nat list \<Rightarrow> (nat \<times> nat) list
     \<Rightarrow> error + (nat list \<times> (nat \<times> nat) list \<times> db)" where
  "resolve_tags P now [] qid d tagIds tagQuestionDocuments = Inr (tagIds, tagQuestionDocuments, d)"
| "resolve_tags P now (tag # rest) qid d tagIds tagQuestionDocuments =
     (case Tag_findOneAndUpdate P now tag d of
        Inl e \<Rightarrow> Inl e
      | Inr (existingTag, d') \<Rightarrow>
          resolve_tags P now rest qid d' (tagIds @ [t_id existingTag])
            (tagQuestionDocuments @ [(t_id existingTag, qid)]))"

text \<open>
  The \<open>try\<close> block of createQuestion on the working copy \<open>d\<close> of the database. The
  value it returns is the document that \<open>Question.create\<close> returned: the later
  \<open>findByIdAndUpdate\<close> changes the stored document, not this one.
\<close>

definition createQuestion_try ::
  "platform \<Rightarrow> nat \<Rightarrow> string \<Rightarrow> string \<Rightarrow> string list \<Rightarrow> string option \<Rightarrow> db
     \<Rightarrow> error + (question \<times> db)" where
  "createQuestion_try P now title content tags userId d =
     (case Question_create title content userId d of
        Inl e \<Rightarrow> Inl e
      | Inr (question, d1) \<Rightarrow>
          (case resolve_tags P now tags (q_id question) d1 [] [] of
             Inl e \<Rightarrow> Inl e
           | Inr (tagIds, tagQuestionDocuments, d2) \<Rightarrow>
               Inr (question,
                    Question_push_tags (q_id question) tagIds
                      (TagQuestion_insertMany tagQuestionDocuments d2))))"

text \<open>
  createQuestion: validate, start the session and the transaction, run the \<open>try\<close>
  block, commit on success. The \<open>catch\<close> block only normalizes the error (its call of
  \<open>abortTransaction\<close> is commented out in the source); \<open>finally\<close> ends the session.
\<close>

definition createQuestion ::
  "platform \<Rightarrow> (CreateQuestionParams \<Rightarrow> bool) \<Rightarrow> string option \<Rightarrow> CreateQuestionParams \<Rightarrow> world
     \<Rightarrow> question ActionResponse \<times> world" where
  "createQuestion P AskQuestionSchema caller params w =
     (case action params AskQuestionSchema True caller of
        Inl e \<Rightarrow> (handleError e, w)
      | Inr (validated, userId) \<Rightarrow>
          (let w1 = startTransaction (startSession w) in
           case createQuestion_try P (clock w) (p_title validated) (p_content validated)
                  (p_tags validated) userId (database w1) of
             Inr (question, d) \<Rightarrow> (Success question, endSession (commitTransaction d w1))
           | Inl e \<Rightarrow> (handleError e, endSession w1)))"

section \<open>editQuestion\<close>

record EditQuestionParams = CreateQuestionParams +
  p_questionId :: nat

text \<open>
  \<open>Question.findById(questionId).populate("tags")\<close> replaces each tag id of the question
  by the tag document it refers to; an id without a document is dropped. An element
  of the in-memory array \<open>question.tags\<close> is then either such a loaded document
  (\<open>Populated\<close>) or not one of them (\<open>Unpopulated\<close>): a bare id, or a document made
  from an id alone.
\<close>

datatype tag_ref = Populated tag | Unpopulated nat

fun ref_id :: "tag_ref \<Rightarrow> nat" where
  "ref_id (Populated t) = t_id t"
| "ref_id (Unpopulated i) = i"

definition populate :: "nat list \<Rightarrow> tag list \<Rightarrow> tag list" where
  "populate ids ts = List.map_filter (\<lambda>i. find (\<lambda>t. t_id t = i) ts) ids"

text \<open>
  \<open>question.tags.includes(tag.toLowerCase())\<close>: the array method compares its argument
  with every element by \<open>==\<close>. The elements are documents and the argument is a
  string, so \<open>==\<close> compares the string with the document's \<open>toString()\<close>, which is the
  rendering of the whole document (\<open>{ _id: new ObjectId(...), name: ..., ... }\<close>) and
  never a lower-case tag name.
\<close>

definition loose_eq_string :: "tag_ref \<Rightarrow> string \<Rightarrow> bool" where
  "loose_eq_string r s = False"

definition mongoose_includes :: "tag_ref list \<Rightarrow> string \<Rightarrow> bool" where
  "mongoose_includes refs s = (\<exists>r \<in> set refs. loose_eq_string r s)"

text \<open>The first step of the \<open>try\<close> block after the checks: title and content are
  assigned and the document is saved only when one of them differs.\<close>

definition update_title_content :: "question \<Rightarrow> string \<Rightarrow> string \<Rightarrow> db \<Rightarrow> question \<times> db" where
  "update_title_content question title content d =
     (if q_title question \<noteq> title \<or> q_content question \<noteq> content
      then (question\<lparr>q_title := title, q_content := content\<rparr>,
            d\<lparr>Questions := update_first (\<lambda>q. q_id q = q_id question)
                   (\<lambda>q. q\<lparr>q_title := title, q_content := content\<rparr>) (Questions d)\<rparr>)
      else (question, d))"

text \<open>\<open>question.tags.push(existingTag._id)\<close> on the in-memory array.\<close>

definition push_tag :: "platform \<Rightarrow> tag_ref list \<Rightarrow> nat \<Rightarrow> tag_ref list" where
  "push_tag P refs i =
     (if push_depopulates P then map (\<lambda>r. Unpopulated (ref_id r)) refs else refs) @ [Unpopulated i]"

text \<open>The loop \<open>for (const tag of tagsToAdd)\<close>: \<open>newTagDocuments\<close> and the in-memory
  \<open>question.tags\<close> grow by one entry per name.\<close>

fun add_tags ::
  "platform \<Rightarrow> nat \<Rightarrow> string list \<Rightarrow> nat \<Rightarrow> db \<Rightarrow> (nat \<times> nat) list \<Rightarrow> tag_ref list
     \<Rightarrow> error + ((nat \<times> nat) list \<times> tag_ref list \<times> db)" where
  "add_tags P now [] questionId d newTagDocuments refs = Inr (newTagDocuments, refs, d)"
| "add_tags P now (tag # rest) questionId d newTagDocuments refs =
     (case Tag_findOneAndUpdate P now tag d of
        Inl e \<Rightarrow> Inl e
      | Inr (existingTag, d') \<Rightarrow>
          add_tags P now rest questionId d' (newTagDocuments @ [(t_id existingTag, questionId)])
            (push_tag P refs (t_id existingTag)))"

text \<open>\<open>Tag.updateMany({ _id: { $in: ids } }, { $inc: { questions: -1 } }, { session })\<close>\<close>

definition Tag_updateMany_dec :: "nat list \<Rightarrow> db \<Rightarrow> db" where
  "Tag_updateMany_dec ids d =
     d\<lparr>Tags := map (\<lambda>t. if t_id t \<in> set ids then t\<lparr>t_questions := t_questions t - 1\<rparr> else t) (Tags d)\<rparr>"

text \<open>\<open>TagQuestion.deleteMany({ tag: { $in: ids }, question: questionId }, { session })\<close>\<close>

definition TagQuestion_deleteMany :: "nat list \<Rightarrow> nat \<Rightarrow> db \<Rightarrow> db" where
  "TagQuestion_deleteMany ids questionId d =
     d\<lparr>TagQuestions := filter (\<lambda>(t, q). \<not> (t \<in> set ids \<and> q = questionId)) (TagQuestions d)\<rparr>"

text \<open>
  The removal block. \<open>tagsToRemove\<close> holds loaded documents, and
  \<open>tagsToRemove.includes(tagId)\<close> finds an element of \<open>question.tags\<close> only when it is
  one of them: an element that is no longer, or never was, a loaded document stays.
\<close>

definition remove_tags :: "tag list \<Rightarrow> nat \<Rightarrow> tag_ref list \<Rightarrow> db \<Rightarrow> tag_ref list \<times> db" where
  "remove_tags tagsToRemove questionId refs d =
     (if tagsToRemove \<noteq> [] then
        (let tagIdsToRemove = map t_id tagsToRemove in
         (filter (\<lambda>r. r \<notin> set (map Populated tagsToRemove)) refs,
          TagQuestion_deleteMany tagIdsToRemove questionId (Tag_updateMany_dec tagIdsToRemove d)))
      else (refs, d))"

text \<open>
  The final \<open>question.save({ session })\<close> writes the tag list: after pushes alone the
  pushed ids are appended to the stored list, after the assignment of the removal
  block the stored list is replaced by the ids of the in-memory array.
\<close>

definition save_tags :: "nat \<Rightarrow> bool \<Rightarrow> nat list \<Rightarrow> tag_ref list \<Rightarrow> db \<Rightarrow> db" where
  "save_tags qid reassigned pushed refs d =
     d\<lparr>Questions := update_first (\<lambda>q. q_id q = qid)
          (\<lambda>q. q\<lparr>q_tags := (if reassigned then map ref_id refs else q_tags q @ pushed)\<rparr>)
          (Questions d)\<rparr>"

text \<open>The \<open>try\<close> block of editQuestion on the working copy \<open>d\<close> of the database.\<close>

definition editQuestion_try ::
  "platform \<Rightarrow> nat \<Rightarrow> string \<Rightarrow> string \<Rightarrow> string list \<Rightarrow> nat \<Rightarrow> string option \<Rightarrow> db
     \<Rightarrow> error + (question \<times> db)" where
  "editQuestion_try P now title content tags questionId userId d =
     (case find (\<lambda>q. q_id q = questionId) (Questions d) of
        None \<Rightarrow> Inl (Error ''Error not found'')
      | Some stored \<Rightarrow>
          if Some (q_author stored) \<noteq> userId then Inl (Error ''Unauthorized'')
          else
            (let loaded = populate (q_tags stored) (Tags d);
                 refs = map Populated loaded;
                 (question, d1) = update_title_content stored title content d;
                 tagsToAdd = filter (\<lambda>tag. \<not> mongoose_includes refs (toLowerCase P tag)) tags;
                 tagsToRemove = filter (\<lambda>t. toLowerCase P (t_name t) \<notin> set tags) loaded
             in case add_tags P now tagsToAdd questionId d1 [] refs of
                  Inl e \<Rightarrow> Inl e
                | Inr (newTagDocuments, refs1, d2) \<Rightarrow>
                    (let (refs2, d3) = remove_tags tagsToRemove questionId refs1 d2;
                         d4 = (if newTagDocuments \<noteq> [] then TagQuestion_insertMany newTagDocuments d3
                               else d3);
                         d5 = save_tags questionId (tagsToRemove \<noteq> []) (map fst newTagDocuments) refs2 d4
                     in Inr (question\<lparr>q_tags := map ref_id refs2\<rparr>, d5))))"

text \<open>editQuestion: as createQuestion, but the \<open>catch\<close> block aborts the transaction
  before it normalizes the error.\<close>

definition editQuestion ::
  "platform \<Rightarrow> (EditQuestionParams \<Rightarrow> bool) \<Rightarrow> string option \<Rightarrow> EditQuestionParams \<Rightarrow> world
     \<Rightarrow> question ActionResponse \<times> world" where
  "editQuestion P EditQuestionSchema caller params w =
     (case action params EditQuestionSchema True caller of
        Inl e \<Rightarrow> (handleError e, w)
      | Inr (validated, userId) \<Rightarrow>
          (let w1 = startTransaction (startSession w) in
           case editQuestion_try P (clock w) (p_title validated) (p_content validated)
                  (p_tags validated) (p_questionId validated) userId (database w1) of
             Inr (question, d) \<Rightarrow> (Success question, endSession (commitTransaction d w1))
           | Inl e \<Rightarrow> (handleError e, endSession (abortTransaction w1))))"

section \<open>getQuestion and getTags\<close>

record GetQuestionParams =
  g_questionId :: nat

text \<open>getQuestion returns the question with its tags populated; it takes the
  database and returns no new one.\<close>

definition getQuestion ::
  "(GetQuestionParams \<Rightarrow> bool) \<Rightarrow> string option \<Rightarrow> GetQuestionParams \<Rightarrow> world
     \<Rightarrow> (question \<times> tag list) ActionResponse" where
  "getQuestion GetQuestionSchema caller params w =
     (case action params GetQuestionSchema True caller of
        Inl e \<Rightarrow> handleError e
      | Inr (validated, userId) \<Rightarrow>
          (case find (\<lambda>q. q_id q = g_questionId validated) (Questions (database w)) of
             None \<Rightarrow> handleError (Error ''Question not Found.'')
           | Some question \<Rightarrow> Success (question, populate (q_tags question) (Tags (database w)))))"

record PaginatedSearchParams =
  s_page :: "int option"
  s_pageSize :: "int option"
  s_query :: "string option"
  s_filter :: "string option"

datatype sortCriteria = Questions_desc | CreatedAt_desc | CreatedAt_asc | Name_asc

definition sort_of :: "string option \<Rightarrow> sortCriteria" where
  "sort_of f =
     (if f = Some ''popular'' then Questions_desc
      else if f = Some ''recent'' then CreatedAt_desc
      else if f = Some ''oldest'' then CreatedAt_asc
      else if f = Some ''name'' then Name_asc
      else Questions_desc)"

fun sort_tags :: "sortCriteria \<Rightarrow> tag list \<Rightarrow> tag list" where
  "sort_tags Questions_desc ts = sort_key (\<lambda>t. - t_questions t) ts"
| "sort_tags CreatedAt_desc ts = sort_key (\<lambda>t. - int (t_createdAt t)) ts"
| "sort_tags CreatedAt_asc ts = sort_key t_createdAt ts"
| "sort_tags Name_asc ts = sort_key t_name ts"

text \<open>
  The store's cursor: a negative skip is rejected, a limit of 0 means no limit and a
  negative limit is taken by its absolute value.
\<close>

definition skip_limit :: "int \<Rightarrow> int \<Rightarrow> 'a list \<Rightarrow> error + 'a list" where
  "skip_limit skip limit xs =
     (if skip < 0 then Inl (Error ''Skip value must be non-negative'')
      else if limit = 0 then Inr (drop (nat skip) xs)
      else Inr (take (nat \<bar>limit\<bar>) (drop (nat skip) xs)))"

text \<open>
  The filter \<open>{ $or: [{ name: { $regex: query, $options: "i" } }] }\<close> is evaluated by the
  store; \<open>store_regex query\<close> is the store's reading of the pattern: the predicate on
  names it stands for, or the error the store raises for it. An absent or empty
  query gives the empty filter.
\<close>

definition filterQuery ::
  "(string \<Rightarrow> error + (string \<Rightarrow> bool)) \<Rightarrow> string option \<Rightarrow> error + (tag \<Rightarrow> bool)" where
  "filterQuery store_regex query =
     (case query of
        None \<Rightarrow> Inr (\<lambda>t. True)
      | Some q \<Rightarrow>
          if q = [] then Inr (\<lambda>t. True)
          else (case store_regex q of Inl e \<Rightarrow> Inl e | Inr m \<Rightarrow> Inr (\<lambda>t. m (t_name t))))"

definition getTags ::
  "(PaginatedSearchParams \<Rightarrow> bool) \<Rightarrow> (string \<Rightarrow> error + (string \<Rightarrow> bool)) \<Rightarrow> string option
     \<Rightarrow> PaginatedSearchParams \<Rightarrow> world \<Rightarrow> (tag list \<times> bool) ActionResponse" where
  "getTags PaginatedSearchParamsSchema store_regex caller params w =
     (case action params PaginatedSearchParamsSchema False caller of
        Inl e \<Rightarrow> handleError e
      | Inr (validated, userId) \<Rightarrow>
          (let page = (case s_page params of None \<Rightarrow> 1 | Some p \<Rightarrow> p);
               pageSize = (case s_pageSize params of None \<Rightarrow> 10 | Some s \<Rightarrow> s);
               skip = (page - 1) * pageSize;
               limit = pageSize;
               sortCriteria = sort_of (s_filter params)
           in case filterQuery store_regex (s_query params) of
                Inl e \<Rightarrow> handleError e
              | Inr matching \<Rightarrow>
                  (let totalTags = length (filter matching (Tags (database w))) in
                   case skip_limit skip limit (sort_tags sortCriteria (filter matching (Tags (database w)))) of
                     Inl e \<Rightarrow> handleError e
                   | Inr tags \<Rightarrow>
                       (let isNext = (int totalTags > skip + int (length tags))
                        in Success (tags, isNext)))))"

section \<open>A concrete platform\<close>

text \<open>
  One platform is written out, to have concrete inputs on which the actions can be
  evaluated. Its \<open>RegExp\<close> reads the patterns made of pattern characters, \<open>.\<close>, the
  assertions \<open>^\<close> and \<open>$\<close> and the quantifiers \<open>*\<close>, \<open>+\<close>, \<open>?\<close> (each optionally followed
  by the lazy marker \<open>?\<close>) as ECMAScript reads them on ASCII names, and rejects every
  other pattern; its \<open>toLowerCase\<close> maps the letters A to Z. It is used only on such
  patterns and names. No theorem stated for every platform depends on it.
\<close>

datatype atom = PatternCharacter char | Dot

datatype quantifier = Once | Star | Plus | Opt

datatype rterm = AssertStart | AssertEnd | Atom atom quantifier

datatype parse_mode = NoAtom | HaveAtom | Quantified | Lazy

definition ascii_toLowerCase_char :: "char \<Rightarrow> char" where
  "ascii_toLowerCase_char c =
     (case map_of (zip ''ABCDEFGHIJKLMNOPQRSTUVWXYZ'' ''abcdefghijklmnopqrstuvwxyz'') c of
        Some l \<Rightarrow> l
      | None \<Rightarrow> c)"

definition ascii_toLowerCase :: "string \<Rightarrow> string" where
  "ascii_toLowerCase s = map ascii_toLowerCase_char s"

definition outside_fragment :: "char \<Rightarrow> bool" where
  "outside_fragment c \<longleftrightarrow> c \<in> set (CHR 0x5C # ''()[]{}|'')"

definition quantifier_of :: "char \<Rightarrow> quantifier option" where
  "quantifier_of c =
     (if c = CHR ''*'' then Some Star
      else if c = CHR ''+'' then Some Plus
      else if c = CHR ''?'' then Some Opt
      else None)"

text \<open>
  One pass over the pattern, left to right. \<open>acc\<close> holds the terms read so far, the
  last one first. A quantifier needs an atom before it: after \<open>^\<close>, after \<open>$\<close>, at the
  start, or after an already quantified atom (apart from one lazy \<open>?\<close>) the pattern is
  a SyntaxError ("Nothing to repeat").
\<close>

fun parse_terms :: "parse_mode \<Rightarrow> rterm list \<Rightarrow> string \<Rightarrow> error + rterm list" where
  "parse_terms m acc [] = Inr (rev acc)"
| "parse_terms m acc (c # cs) =
     (if c = CHR ''^'' then parse_terms NoAtom (AssertStart # acc) cs
      else if c = CHR ''$'' then parse_terms NoAtom (AssertEnd # acc) cs
      else if c = CHR ''.'' then parse_terms HaveAtom (Atom Dot Once # acc) cs
      else (case quantifier_of c of
          Some q \<Rightarrow>
            (case (m, acc) of
               (HaveAtom, Atom a _ # acc') \<Rightarrow> parse_terms Quantified (Atom a q # acc') cs
             | (Quantified, _) \<Rightarrow> if q = Opt then parse_terms Lazy acc cs else Inl SyntaxError
             | _ \<Rightarrow> Inl SyntaxError)
        | None \<Rightarrow> parse_terms HaveAtom (Atom (PatternCharacter c) Once # acc) cs))"

text \<open>With the flag \<open>i\<close> a pattern character matches in either letter case; the dot
  matches every character but a line terminator.\<close>

fun atom_matches :: "atom \<Rightarrow> char \<Rightarrow> bool" where
  "atom_matches (PatternCharacter a) c = (ascii_toLowerCase_char a = ascii_toLowerCase_char c)"
| "atom_matches Dot c = (c \<noteq> CHR 0x0A \<and> c \<noteq> CHR 0x0D)"

text \<open>\<open>matches_at ts s b\<close>: the terms match a prefix of \<open>s\<close>; \<open>b\<close> says that \<open>s\<close> starts
  at the beginning of the input.\<close>

fun matches_at :: "rterm list \<Rightarrow> string \<Rightarrow> bool \<Rightarrow> bool" where
  "matches_at [] s b = True"
| "matches_at (AssertStart # ts) s b = (b \<and> matches_at ts s b)"
| "matches_at (AssertEnd # ts) s b = (s = [] \<and> matches_at ts s b)"
| "matches_at (Atom a Once # ts) [] b = False"
| "matches_at (Atom a Once # ts) (c # cs) b = (atom_matches a c \<and> matches_at ts cs False)"
| "matches_at (Atom a Opt # ts) [] b = matches_at ts [] b"
| "matches_at (Atom a Opt # ts) (c # cs) b =
     ((atom_matches a c \<and> matches_at ts cs False) \<or> matches_at ts (c # cs) b)"
| "matches_at (Atom a Star # ts) [] b = matches_at ts [] b"
| "matches_at (Atom a Star # ts) (c # cs) b =
     ((atom_matches a c \<and> matches_at (Atom a Star # ts) cs False) \<or> matches_at ts (c # cs) b)"
| "matches_at (Atom a Plus # ts) [] b = False"
| "matches_at (Atom a Plus # ts) (c # cs) b =
     (atom_matches a c \<and> matches_at (Atom a Star # ts) cs False)"

text \<open>An unanchored search, as \<open>$regex\<close> performs it: a match may start anywhere.\<close>

fun search_from :: "rterm list \<Rightarrow> string \<Rightarrow> bool \<Rightarrow> bool" where
  "search_from ts [] b = matches_at ts [] b"
| "search_from ts (c # cs) b = (matches_at ts (c # cs) b \<or> search_from ts cs False)"

definition regex_test :: "rterm list \<Rightarrow> string \<Rightarrow> bool" where
  "regex_test ts s = search_from ts s True"

definition fragment_regex :: "string \<Rightarrow> error + (string \<Rightarrow> bool)" where
  "fragment_regex src =
     (if \<exists>c \<in> set src. outside_fragment c then Inl SyntaxError
      else (case parse_terms NoAtom [] src of Inl e \<Rightarrow> Inl e | Inr ts \<Rightarrow> Inr (regex_test ts)))"

definition fragment_platform :: "bool \<Rightarrow> platform" where
  "fragment_platform depopulates =
     \<lparr>RegExp_i = fragment_regex, toLowerCase = ascii_toLowerCase, push_depopulates = depopulates\<rparr>"

section \<open>Properties stated about the store\<close>

text \<open>An action succeeded when its envelope is the success envelope.\<close>

definition succeeded :: "'a ActionResponse \<Rightarrow> bool" where
  "succeeded r = (case r of Success x \<Rightarrow> True | ErrorResponse e \<Rightarrow> False)"

text \<open>The fields of a question other than title, content and tags.\<close>

definition other_fields :: "question \<Rightarrow> question" where
  "other_fields q = q\<lparr>q_title := [], q_content := [], q_tags := []\<rparr>"

text \<open>The number of join records that reference a tag, and the two parts of the
  counter invariant: tag ids are unique, and every counter is non-negative and equals
  that number.\<close>

definition join_count :: "db \<Rightarrow> nat \<Rightarrow> nat" where
  "join_count d i = length (filter (\<lambda>j. fst j = i) (TagQuestions d))"

definition unique_tag_ids :: "db \<Rightarrow> bool" where
  "unique_tag_ids d \<longleftrightarrow> distinct (map t_id (Tags d))"

definition counters_match :: "db \<Rightarrow> bool" where
  "counters_match d \<longleftrightarrow>
     (\<forall>t \<in> set (Tags d). 0 \<le> t_questions t \<and> t_questions t = int (join_count d (t_id t)))"

text \<open>Inside the loop the counters run ahead of the join records by the documents
  staged for the bulk insert.\<close>

definition staged_count :: "(nat \<times> nat) list \<Rightarrow> nat \<Rightarrow> nat" where
  "staged_count docs i = length (filter (\<lambda>j. fst j = i) docs)"

definition loop_inv :: "db \<Rightarrow> (nat \<times> nat) list \<Rightarrow> bool" where
  "loop_inv d docs \<longleftrightarrow>
     distinct (map t_id (Tags d)) \<and>
     (\<forall>t \<in> set (Tags d). t_questions t = int (join_count d (t_id t)) + int (staged_count docs (t_id t))) \<and>
     (\<forall>j \<in> set docs. fst j \<in> t_id ` set (Tags d))"

text \<open>Concrete inputs: a schema that accepts everything, the empty store, the store
  that createQuestion commits for the tags go and rust, the one it commits for the
  tags go and go, a store with the single tag abc, and a store with fifteen tags.\<close>

definition accept_all :: "'p \<Rightarrow> bool" where
  "accept_all p = True"

definition empty_world :: world where
  "empty_world =
     \<lparr>database = \<lparr>Tags = [], Questions = [], TagQuestions = []\<rparr>, session_calls = [], clock = 0\<rparr>"

definition world_go_rust :: world where
  "world_go_rust =
     \<lparr>database =
        \<lparr>Tags = [\<lparr>t_id = 2, t_name = ''go'', t_questions = 1, t_createdAt = 0\<rparr>,
                 \<lparr>t_id = 3, t_name = ''rust'', t_questions = 1, t_createdAt = 0\<rparr>],
         Questions = [\<lparr>q_id = 1, q_title = ''t'', q_content = ''c'', q_author = ''u1'',
                        q_tags = [2, 3], q_views = 0, q_answers = 0, q_upvotes = 0,
                        q_downvotes = 0\<rparr>],
         TagQuestions = [(2, 1), (3, 1)]\<rparr>,
      session_calls = [StartSession, StartTransaction, CommitTransaction, EndSession],
      clock = 0\<rparr>"

definition world_go_go :: world where
  "world_go_go =
     \<lparr>database =
        \<lparr>Tags = [\<lparr>t_id = 2, t_name = ''go'', t_questions = 2, t_createdAt = 0\<rparr>],
         Questions = [\<lparr>q_id = 1, q_title = ''t'', q_content = ''c'', q_author = ''u1'',
                        q_tags = [2, 2], q_views = 0, q_answers = 0, q_upvotes = 0,
                        q_downvotes = 0\<rparr>],
         TagQuestions = [(2, 1), (2, 1)]\<rparr>,
      session_calls = [StartSession, StartTransaction, CommitTransaction, EndSession],
      clock = 0\<rparr>"

definition db_abc :: db where
  "db_abc =
     \<lparr>Tags = [\<lparr>t_id = 1, t_name = ''abc'', t_questions = 1, t_createdAt = 0\<rparr>],
      Questions = [], TagQuestions = [(1, 7)]\<rparr>"

definition fifteen_tags :: world where
  "fifteen_tags =
     \<lparr>database =
        \<lparr>Tags = map (\<lambda>i. \<lparr>t_id = i, t_name = ''tag'', t_questions = 0, t_createdAt = i\<rparr>) [0..<15],
         Questions = [], TagQuestions = []\<rparr>,
      session_calls = [], clock = 0\<rparr>"

section \<open>Evaluating the actions on the concrete platform\<close>

lemmas session_defs =
  startSession_def startTransaction_def commitTransaction_def abortTransaction_def endSession_def

lemmas fragment_defs =
  fragment_platform_def fragment_regex_def outside_fragment_def quantifier_of_def regex_test_def
  ascii_toLowerCase_char_def ascii_toLowerCase_def

lemmas store_defs =
  Tag_findOneAndUpdate_def Question_create_def TagQuestion_insertMany_def Question_push_tags_def
  new_oid_def all_ids_def populate_def List.map_filter_def Tag_updateMany_dec_def
  TagQuestion_deleteMany_def save_tags_def

lemmas action_defs =
  createQuestion_def createQuestion_try_def editQuestion_def editQuestion_try_def action_def
  handleError_def accept_all_def Let_def mongoose_includes_def loose_eq_string_def
  update_title_content_def remove_tags_def push_tag_def

lemma fragment_c_plus_plus: "RegExp_i (fragment_platform b) ''^c++$'' = Inl SyntaxError"
  by (simp add: fragment_defs)

lemma fragment_go: "\<exists>m. RegExp_i (fragment_platform b) ''^go$'' = Inr m"
  by (simp add: fragment_defs)

lemma fragment_rust:
  "\<exists>m. RegExp_i (fragment_platform b) ''^rust$'' = Inr m \<and> m ''rust'' \<and> \<not> m ''go''"
  by (simp add: fragment_defs)

lemma fragment_wasm:
  "\<exists>m. RegExp_i (fragment_platform b) ''^wasm$'' = Inr m \<and> \<not> m ''go'' \<and> \<not> m ''rust''"
  by (simp add: fragment_defs)

lemma fragment_Python: "\<exists>m. RegExp_i (fragment_platform b) ''^Python$'' = Inr m"
  by (simp add: fragment_defs)

lemma fragment_python:
  "\<exists>m. RegExp_i (fragment_platform b) ''^python$'' = Inr m \<and> m ''Python''"
  by (simp add: fragment_defs)

lemma fragment_AI:
  "\<exists>m. RegExp_i (fragment_platform b) ''^AI$'' = Inr m \<and> \<not> m ''Python''"
  by (simp add: fragment_defs)

lemma fragment_a_dot_c:
  "\<exists>m. RegExp_i (fragment_platform b) ''^a.c$'' = Inr m \<and> m ''abc''"
  by (simp add: fragment_defs)

lemma fragment_lower:
  "toLowerCase (fragment_platform b) ''go'' = ''go''"
  "toLowerCase (fragment_platform b) ''rust'' = ''rust''"
  by (simp_all add: fragment_defs)

lemma create_go_rust:
  "createQuestion (fragment_platform True) accept_all (Some ''u1'')
     \<lparr>p_title = ''t'', p_content = ''c'', p_tags = [''go'', ''rust'']\<rparr> empty_world
   = (Success \<lparr>q_id = 1, q_title = ''t'', q_content = ''c'', q_author = ''u1'', q_tags = [],
                q_views = 0, q_answers = 0, q_upvotes = 0, q_downvotes = 0\<rparr>,
      world_go_rust)"
  by (simp add: action_defs store_defs fragment_defs session_defs empty_world_def world_go_rust_def)

lemma create_python_python_ai:
  "createQuestion (fragment_platform True) accept_all (Some ''u1'')
     \<lparr>p_title = ''t'', p_content = ''c'', p_tags = [''Python'', ''python'', ''AI'']\<rparr> empty_world
   = (Success \<lparr>q_id = 1, q_title = ''t'', q_content = ''c'', q_author = ''u1'', q_tags = [],
                q_views = 0, q_answers = 0, q_upvotes = 0, q_downvotes = 0\<rparr>,
      \<lparr>database =
         \<lparr>Tags = [\<lparr>t_id = 2, t_name = ''Python'', t_questions = 2, t_createdAt = 0\<rparr>,
                  \<lparr>t_id = 3, t_name = ''AI'', t_questions = 1, t_createdAt = 0\<rparr>],
          Questions = [\<lparr>q_id = 1, q_title = ''t'', q_content = ''c'', q_author = ''u1'',
                         q_tags = [2, 2, 3], q_views = 0, q_answers = 0, q_upvotes = 0,
                         q_downvotes = 0\<rparr>],
          TagQuestions = [(2, 1), (2, 1), (3, 1)]\<rparr>,
       session_calls = [StartSession, StartTransaction, CommitTransaction, EndSession],
       clock = 0\<rparr>)"
  by (simp add: action_defs store_defs fragment_defs session_defs empty_world_def)

lemma create_go_go:
  "createQuestion (fragment_platform True) accept_all (Some ''u1'')
     \<lparr>p_title = ''t'', p_content = ''c'', p_tags = [''go'', ''go'']\<rparr> empty_world
   = (Success \<lparr>q_id = 1, q_title = ''t'', q_content = ''c'', q_author = ''u1'', q_tags = [],
                q_views = 0, q_answers = 0, q_upvotes = 0, q_downvotes = 0\<rparr>,
      world_go_go)"
  by (simp add: action_defs store_defs fragment_defs session_defs empty_world_def world_go_go_def)

lemma edit_go_go_to_rust:
  "editQuestion (fragment_platform True) accept_all (Some ''u1'')
     \<lparr>p_title = ''t'', p_content = ''c'', p_tags = [''rust''], p_questionId = 1\<rparr> world_go_go
   = (Success \<lparr>q_id = 1, q_title = ''t'', q_content = ''c'', q_author = ''u1'',
                q_tags = [2, 2, 3], q_views = 0, q_answers = 0, q_upvotes = 0, q_downvotes = 0\<rparr>,
      \<lparr>database =
         \<lparr>Tags = [\<lparr>t_id = 2, t_name = ''go'', t_questions = 1, t_createdAt = 0\<rparr>,
                  \<lparr>t_id = 3, t_name = ''rust'', t_questions = 1, t_createdAt = 0\<rparr>],
          Questions = [\<lparr>q_id = 1, q_title = ''t'', q_content = ''c'', q_author = ''u1'',
                         q_tags = [2, 2, 3], q_views = 0, q_answers = 0, q_upvotes = 0,
                         q_downvotes = 0\<rparr>],
          TagQuestions = [(3, 1)]\<rparr>,
       session_calls = [StartSession, StartTransaction, CommitTransaction, EndSession,
                        StartSession, StartTransaction, CommitTransaction, EndSession],
       clock = 0\<rparr>)"
  by (simp add: action_defs store_defs fragment_defs session_defs world_go_go_def)

section \<open>Auxiliary facts\<close>

lemma map_update_first_frame:
  "(\<And>x. g (f x) = g x) \<Longrightarrow> map g (update_first P f xs) = map g xs"
  by (induction xs) auto

text \<open>Fresh object ids, and what one resolution does to the counters.\<close>

lemma fold_max_ge: "(x::nat) \<in> set xs \<Longrightarrow> x \<le> fold max xs a"
proof -
  assume "x \<in> set xs"
  then have "x \<le> Max (set (a # xs))" by (intro Max_ge) auto
  then show ?thesis by (simp only: Max.set_eq_fold)
qed

lemma new_oid_fresh: "i \<in> set (all_ids d) \<Longrightarrow> i < new_oid d"
  using fold_max_ge[of i "all_ids d" 0] by (simp add: new_oid_def)

lemma new_oid_not_tag: "t \<in> set (Tags d) \<Longrightarrow> t_id t \<noteq> new_oid d"
  using new_oid_fresh[of "t_id t" d] by (auto simp: all_ids_def)

lemma new_oid_not_joined: "j \<in> set (TagQuestions d) \<Longrightarrow> fst j \<noteq> new_oid d"
  using new_oid_fresh[of "fst j" d] by (auto simp: all_ids_def)

lemma join_count_new_oid: "join_count d (new_oid d) = 0"
  by (auto simp: join_count_def filter_empty_conv dest: new_oid_not_joined)

lemma update_first_elem:
  assumes "find P xs = Some x0" "distinct (map g xs)" "g (f x0) = g x0"
    and "x \<in> set (update_first P f xs)"
  shows "x = f x0 \<or> (x \<in> set xs \<and> g x \<noteq> g x0)"
  using assms
proof (induction xs)
  case Nil
  then show ?case by simp
next
  case (Cons a xs)
  show ?case
  proof (cases "P a")
    case True
    with Cons.prems show ?thesis by (auto simp: image_iff)
  next
    case False
    with Cons.prems Cons.IH show ?thesis
      by (auto simp: image_iff dest!: find_Some_iff[THEN iffD1] )
  qed
qed


lemma find_Some_mem: "find P xs = Some x \<Longrightarrow> x \<in> set xs"
  by (auto simp: find_Some_iff)

lemma staged_count_snoc:
  "staged_count (docs @ [(i, q)]) k = staged_count docs k + (if i = k then 1 else 0)"
  by (simp add: staged_count_def)

lemma Tag_findOneAndUpdate_inv:
  assumes "loop_inv d docs" and "Tag_findOneAndUpdate P now tag d = Inr (t, d')"
  shows "loop_inv d' (docs @ [(t_id t, qid)]) \<and> TagQuestions d' = TagQuestions d"
proof -
  from assms(2) obtain m where re: "RegExp_i P (''^'' @ tag @ ''$'') = Inr m"
    by (auto simp: Tag_findOneAndUpdate_def split: sum.splits)
  let ?P = "\<lambda>t. m (t_name t)"
  let ?inc = "\<lambda>t. t\<lparr>t_questions := t_questions t + 1\<rparr>"
  show ?thesis
  proof (cases "find ?P (Tags d)")
    case None
    let ?n = "\<lparr>t_id = new_oid d, t_name = tag, t_questions = 1, t_createdAt = now\<rparr>"
    from None assms(2) re have t: "t = ?n" and d': "d' = d\<lparr>Tags := Tags d @ [?n]\<rparr>"
      by (auto simp: Tag_findOneAndUpdate_def Let_def)
    have fresh_docs: "staged_count docs (new_oid d) = 0"
    proof -
      have "fst j \<noteq> new_oid d" if "j \<in> set docs" for j
      proof -
        from assms(1) that obtain x where "x \<in> set (Tags d)" "fst j = t_id x"
          by (auto simp: loop_inv_def)
        then show ?thesis using new_oid_not_tag[of x d] by simp
      qed
      then show ?thesis by (auto simp: staged_count_def filter_empty_conv)
    qed
    have jc: "\<And>i. join_count d' i = join_count d i"
      by (simp add: d' join_count_def)
    have tags': "Tags d' = Tags d @ [?n]" and tq: "TagQuestions d' = TagQuestions d"
      by (simp_all add: d')
    have notin: "new_oid d \<notin> t_id ` set (Tags d)"
    proof
      assume "new_oid d \<in> t_id ` set (Tags d)"
      then obtain x where "x \<in> set (Tags d)" "t_id x = new_oid d" by force
      then show False using new_oid_not_tag[of x d] by simp
    qed
    have dist: "distinct (map t_id (Tags d'))"
      using assms(1) notin by (simp add: loop_inv_def tags')
    have cnt: "\<forall>x \<in> set (Tags d'). t_questions x
        = int (join_count d' (t_id x)) + int (staged_count (docs @ [(t_id t, qid)]) (t_id x))"
    proof
      fix x assume "x \<in> set (Tags d')"
      then consider "x = ?n" | "x \<in> set (Tags d)" by (auto simp: tags')
      then show "t_questions x
        = int (join_count d' (t_id x)) + int (staged_count (docs @ [(t_id t, qid)]) (t_id x))"
      proof cases
        case 1
        then show ?thesis
          using fresh_docs join_count_new_oid[of d] by (simp add: jc t staged_count_snoc)
      next
        case 2
        then have "t_id x \<noteq> new_oid d" by (rule new_oid_not_tag)
        with 2 assms(1) show ?thesis
          by (auto simp: loop_inv_def jc t staged_count_snoc)
      qed
    qed
    have sub: "\<forall>j \<in> set (docs @ [(t_id t, qid)]). fst j \<in> t_id ` set (Tags d')"
      using assms(1) by (auto simp: loop_inv_def tags' t)
    show ?thesis
      using dist cnt sub tq by (simp add: loop_inv_def)
  next
    case (Some t0)
    from Some assms(2) re have t: "t = ?inc t0"
      and d': "d' = d\<lparr>Tags := update_first ?P ?inc (Tags d)\<rparr>"
      by (auto simp: Tag_findOneAndUpdate_def Let_def)
    have ids: "map t_id (Tags d') = map t_id (Tags d)"
      by (simp add: d' map_update_first_frame)
    have jc: "\<And>i. join_count d' i = join_count d i"
      by (simp add: d' join_count_def)
    have t0: "t0 \<in> set (Tags d)" using Some by (rule find_Some_mem)
    have dist: "distinct (map t_id (Tags d))" using assms(1) by (simp add: loop_inv_def)
    have elem: "\<And>x. x \<in> set (Tags d') \<Longrightarrow> x = ?inc t0 \<or> (x \<in> set (Tags d) \<and> t_id x \<noteq> t_id t0)"
      using update_first_elem[OF Some dist, of ?inc] by (simp add: d')
    have cnt: "\<forall>x \<in> set (Tags d'). t_questions x
        = int (join_count d' (t_id x)) + int (staged_count (docs @ [(t_id t, qid)]) (t_id x))"
    proof
      fix x assume "x \<in> set (Tags d')"
      from elem[OF this] show "t_questions x
        = int (join_count d' (t_id x)) + int (staged_count (docs @ [(t_id t, qid)]) (t_id x))"
        using assms(1) t0 by (auto simp: loop_inv_def jc t staged_count_snoc)
    qed
    have sub: "\<forall>j \<in> set (docs @ [(t_id t, qid)]). fst j \<in> t_id ` set (Tags d')"
    proof -
      have "t_id ` set (Tags d') = t_id ` set (Tags d)"
        using ids by (metis set_map)
      then show ?thesis using assms(1) t0 by (auto simp: loop_inv_def t)
    qed
    show ?thesis
      using dist cnt sub by (simp add: loop_inv_def ids) (simp add: d')
  qed
qed

lemma resolve_tags_inv:
  "loop_inv d docs \<Longrightarrow> resolve_tags P now tags qid d tagIds docs = Inr (tagIds', docs', d') \<Longrightarrow>
     loop_inv d' docs' \<and> TagQuestions d' = TagQuestions d"
proof (induction tags arbitrary: d tagIds docs)
  case Nil
  then show ?case by simp
next
  case (Cons tag rest)
  from Cons.prems(2) obtain t d1 where
    step: "Tag_findOneAndUpdate P now tag d = Inr (t, d1)" and
    rest: "resolve_tags P now rest qid d1 (tagIds @ [t_id t]) (docs @ [(t_id t, qid)]) = Inr (tagIds', docs', d')"
    by (auto split: sum.splits)
  from Tag_findOneAndUpdate_inv[OF Cons.prems(1) step, of qid]
  have "loop_inv d1 (docs @ [(t_id t, qid)])" and "TagQuestions d1 = TagQuestions d" by simp_all
  with Cons.IH[OF _ rest] show ?case by simp
qed

lemma loop_inv_start:
  "unique_tag_ids d \<Longrightarrow> counters_match d \<Longrightarrow> Tags d' = Tags d \<Longrightarrow> TagQuestions d' = TagQuestions d
     \<Longrightarrow> loop_inv d' []"
  by (simp add: loop_inv_def unique_tag_ids_def counters_match_def join_count_def staged_count_def)

lemma loop_inv_insertMany:
  "loop_inv d docs \<Longrightarrow> Tags d' = Tags d \<Longrightarrow> TagQuestions d' = TagQuestions d @ docs
     \<Longrightarrow> unique_tag_ids d' \<and> counters_match d'"
  by (simp add: loop_inv_def unique_tag_ids_def counters_match_def join_count_def staged_count_def)

lemma createQuestion_try_counters:
  assumes "unique_tag_ids d" "counters_match d"
    and "createQuestion_try P now title content tags userId d = Inr (q, d')"
  shows "unique_tag_ids d' \<and> counters_match d'"
proof -
  from assms(3) obtain question d1 tagIds docs d2 where
    c: "Question_create title content userId d = Inr (question, d1)" and
    r: "resolve_tags P now tags (q_id question) d1 [] [] = Inr (tagIds, docs, d2)" and
    d': "d' = Question_push_tags (q_id question) tagIds (TagQuestion_insertMany docs d2)"
    by (auto simp: createQuestion_try_def split: sum.splits)
  from c have "Tags d1 = Tags d" "TagQuestions d1 = TagQuestions d"
    by (auto simp: Question_create_def Let_def split: option.splits)
  then have "loop_inv d1 []" using assms(1,2) by (intro loop_inv_start)
  from resolve_tags_inv[OF this r] have "loop_inv d2 docs" "TagQuestions d2 = TagQuestions d1" by simp_all
  then show ?thesis
    by (intro loop_inv_insertMany[of d2 docs])
      (simp_all add: d' Question_push_tags_def TagQuestion_insertMany_def)
qed


lemma createQuestion_SuccessD:
  "succeeded (fst (createQuestion P schema caller params w)) \<Longrightarrow>
     \<exists>q d'. createQuestion_try P (clock w) (p_title params) (p_content params) (p_tags params)
            caller (database w) = Inr (q, d')
          \<and> database (snd (createQuestion P schema caller params w)) = d'"
  by (auto simp: createQuestion_def action_def handleError_def Let_def session_defs succeeded_def
      split: sum.splits if_splits)

lemma find_snoc_None:
  "\<forall>x \<in> set xs. \<not> P x \<Longrightarrow> find P (xs @ [y]) = (if P y then Some y else None)"
  by (induction xs) auto

lemma find_None_all: "\<forall>x \<in> set xs. \<not> P x \<Longrightarrow> find P xs = None"
  by (simp add: find_None_iff)

lemma update_first_snoc_None:
  "\<forall>x \<in> set xs. \<not> P x \<Longrightarrow> update_first P f (xs @ [y]) = xs @ [if P y then f y else y]"
  by (induction xs) auto

lemma new_oid_after_tag:
  "i \<noteq> new_oid (d\<lparr>Tags := ts @ [\<lparr>t_id = i, t_name = n, t_questions = k, t_createdAt = a\<rparr>]\<rparr>)"
  using new_oid_not_tag[of "\<lparr>t_id = i, t_name = n, t_questions = k, t_createdAt = a\<rparr>"
      "d\<lparr>Tags := ts @ [\<lparr>t_id = i, t_name = n, t_questions = k, t_createdAt = a\<rparr>]\<rparr>"]
  by simp

lemma length_sort_tags: "length (sort_tags c ts) = length ts"
  by (cases c) simp_all

lemma Tag_findOneAndUpdate_Questions:
  "Tag_findOneAndUpdate P now tag d = Inr (t, d') \<Longrightarrow> Questions d' = Questions d"
  by (auto simp: Tag_findOneAndUpdate_def Let_def split: sum.splits option.splits)

lemma add_tags_Questions:
  "add_tags P now ts qid d docs refs = Inr (docs', refs', d') \<Longrightarrow> Questions d' = Questions d"
proof (induction ts arbitrary: d docs refs)
  case Nil
  then show ?case by simp
next
  case (Cons tag rest)
  then show ?case
    by (auto split: sum.splits dest: Tag_findOneAndUpdate_Questions)
qed

lemma remove_tags_Questions:
  "remove_tags rm qid refs d = (refs', d') \<Longrightarrow> Questions d' = Questions d"
  by (auto simp: remove_tags_def TagQuestion_deleteMany_def Tag_updateMany_dec_def Let_def
      split: if_splits)

lemma update_title_content_frame:
  "update_title_content q t c d = (q', d') \<Longrightarrow>
     map other_fields (Questions d') = map other_fields (Questions d)"
  by (auto simp: update_title_content_def other_fields_def map_update_first_frame split: if_splits)

lemma save_tags_frame:
  "map other_fields (Questions (save_tags qid b pushed refs d)) = map other_fields (Questions d)"
  by (simp add: save_tags_def other_fields_def map_update_first_frame)

lemma editQuestion_try_frame:
  assumes "editQuestion_try P now title content tags qid userId d = Inr (q, d')"
  shows "map other_fields (Questions d') = map other_fields (Questions d)"
  using assms
  by (auto simp: editQuestion_try_def Let_def save_tags_frame TagQuestion_insertMany_def
      split: option.splits if_splits sum.splits prod.splits
      dest!: remove_tags_Questions update_title_content_frame add_tags_Questions)

lemma editQuestion_database_cases:
  "database (snd (editQuestion P schema caller params w)) = database w \<or>
   (\<exists>q d. editQuestion_try P (clock w) (p_title params) (p_content params) (p_tags params)
       (p_questionId params) caller (database w) = Inr (q, d) \<and>
      database (snd (editQuestion P schema caller params w)) = d)"
  by (auto simp: editQuestion_def action_def handleError_def Let_def session_defs
      split: sum.splits prod.splits)

section \<open>The claims\<close>

text \<open>
  C1. On a failing execution createQuestion is claimed to abort the transaction before
  it returns the normalized error. With the tag name \<open>c++\<close> the pattern \<open>^c++$\<close> is
  invalid, so on every platform that rejects it, as ECMAScript does, the loop throws
  after the question was inserted in the transaction. The session calls made are
  startSession, startTransaction and endSession: the \<open>catch\<close> block does not call
  abortTransaction. The committed database is the one before the call.
\<close>

theorem createQuestion_failure_without_abort:
  assumes "RegExp_i P ''^c++$'' = Inl e"
  shows "createQuestion P accept_all (Some u) \<lparr>p_title = t, p_content = c, p_tags = [''c++'']\<rparr> w
   = (ErrorResponse e,
      w\<lparr>session_calls := session_calls w @ [StartSession, StartTransaction, EndSession]\<rparr>)"
  using assms by (simp add: action_defs store_defs session_defs)

theorem createQuestion_failure_without_abort_witness:
  "createQuestion (fragment_platform True) accept_all (Some ''u1'')
     \<lparr>p_title = ''t'', p_content = ''c'', p_tags = [''c++'']\<rparr> empty_world
   = (ErrorResponse SyntaxError,
      empty_world\<lparr>session_calls :=
        session_calls empty_world @ [StartSession, StartTransaction, EndSession]\<rparr>)"
  by (rule createQuestion_failure_without_abort [OF fragment_c_plus_plus])

text \<open>
  C2. Editing the question tagged go and rust to the desired tags rust and wasm, on
  every platform that reads the two names as plain patterns and leaves the lower-case
  names go and rust as they are: every desired name is resolved, also rust, which the
  question already has. The counter of rust goes from 1 to 2 and a second join record
  (rust, question) is inserted; go is released and wasm is created as claimed. The
  stored question lists rust twice, and with a depopulating \<open>push\<close> it still lists go.
\<close>

theorem editQuestion_go_rust_to_rust_wasm:
  assumes "RegExp_i P ''^rust$'' = Inr mr" and "mr ''rust''" and "\<not> mr ''go''"
    and "RegExp_i P ''^wasm$'' = Inr mw" and "\<not> mw ''go''" and "\<not> mw ''rust''"
    and "toLowerCase P ''go'' = ''go''" and "toLowerCase P ''rust'' = ''rust''"
  shows "map (\<lambda>t. (t_name t, t_questions t))
     (Tags (database (snd (editQuestion P accept_all (Some ''u1'')
        \<lparr>p_title = ''t'', p_content = ''c'', p_tags = [''rust'', ''wasm''], p_questionId = 1\<rparr>
        world_go_rust))))
     = [(''go'', 0), (''rust'', 2), (''wasm'', 1)]
   \<and> TagQuestions (database (snd (editQuestion P accept_all (Some ''u1'')
        \<lparr>p_title = ''t'', p_content = ''c'', p_tags = [''rust'', ''wasm''], p_questionId = 1\<rparr>
        world_go_rust)))
     = [(3, 1), (3, 1), (4, 1)]
   \<and> map q_tags (Questions (database (snd (editQuestion P accept_all (Some ''u1'')
        \<lparr>p_title = ''t'', p_content = ''c'', p_tags = [''rust'', ''wasm''], p_questionId = 1\<rparr>
        world_go_rust))))
     = [if push_depopulates P then [2, 3, 3, 4] else [3, 3, 4]]"
  using assms
  by (simp add: action_defs store_defs session_defs world_go_rust_def)

theorem editQuestion_go_rust_to_rust_wasm_witness:
  "map (\<lambda>t. (t_name t, t_questions t))
     (Tags (database (snd (editQuestion (fragment_platform True) accept_all (Some ''u1'')
        \<lparr>p_title = ''t'', p_content = ''c'', p_tags = [''rust'', ''wasm''], p_questionId = 1\<rparr>
        world_go_rust))))
     = [(''go'', 0), (''rust'', 2), (''wasm'', 1)]
   \<and> TagQuestions (database (snd (editQuestion (fragment_platform True) accept_all (Some ''u1'')
        \<lparr>p_title = ''t'', p_content = ''c'', p_tags = [''rust'', ''wasm''], p_questionId = 1\<rparr>
        world_go_rust)))
     = [(3, 1), (3, 1), (4, 1)]
   \<and> map q_tags (Questions (database (snd (editQuestion (fragment_platform True) accept_all (Some ''u1'')
        \<lparr>p_title = ''t'', p_content = ''c'', p_tags = [''rust'', ''wasm''], p_questionId = 1\<rparr>
        world_go_rust))))
     = [[2, 3, 3, 4]]"
proof -
  obtain mr where r: "RegExp_i (fragment_platform True) ''^rust$'' = Inr mr" "mr ''rust''" "\<not> mr ''go''"
    using fragment_rust by blast
  obtain mw where w: "RegExp_i (fragment_platform True) ''^wasm$'' = Inr mw" "\<not> mw ''go''" "\<not> mw ''rust''"
    using fragment_wasm by blast
  have d: "push_depopulates (fragment_platform True)"
    by (simp add: fragment_platform_def)
  from editQuestion_go_rust_to_rust_wasm [OF r w fragment_lower] d
  show ?thesis by (simp only: if_True)
qed

text \<open>
  C3, as amended. Let the platform read the three names as patterns, of which
  \<open>^python$\<close> matches Python and \<open>^AI$\<close> does not, and let the store have no tag that
  one of the three patterns matches (no tag named python or ai in any letter case).
  Then creating a question with the tags Python, python, AI adds exactly two tags,
  Python (the casing of the first occurrence) and AI. Every supplied name is resolved
  on its own: the counter of Python is set to 1 for Python and incremented for python,
  so it ends at 2, the counter of AI ends at 1, and three join records are inserted,
  two of them for Python.
\<close>

theorem createQuestion_python_python_ai:
  assumes "RegExp_i P ''^Python$'' = Inr m1" and "RegExp_i P ''^python$'' = Inr m2"
    and "RegExp_i P ''^AI$'' = Inr m3"
    and "m2 ''Python''" and "\<not> m3 ''Python''"
    and "\<forall>t \<in> set (Tags (database w)).
           \<not> m1 (t_name t) \<and> \<not> m2 (t_name t) \<and> \<not> m3 (t_name t)"
  shows "\<exists>pid aid. pid \<noteq> aid \<and>
      Tags (database (snd (createQuestion P accept_all (Some u)
        \<lparr>p_title = t, p_content = c, p_tags = [''Python'', ''python'', ''AI'']\<rparr> w)))
      = Tags (database w) @
          [\<lparr>t_id = pid, t_name = ''Python'', t_questions = 2, t_createdAt = clock w\<rparr>,
           \<lparr>t_id = aid, t_name = ''AI'', t_questions = 1, t_createdAt = clock w\<rparr>]
    \<and> TagQuestions (database (snd (createQuestion P accept_all (Some u)
        \<lparr>p_title = t, p_content = c, p_tags = [''Python'', ''python'', ''AI'']\<rparr> w)))
      = TagQuestions (database w) @
          [(pid, new_oid (database w)), (pid, new_oid (database w)), (aid, new_oid (database w))]"
proof -
  have a1: "\<forall>x \<in> set (Tags (database w)). \<not> m1 (t_name x)"
    and a2: "\<forall>x \<in> set (Tags (database w)). \<not> m2 (t_name x)"
    and a3: "\<forall>x \<in> set (Tags (database w)). \<not> m3 (t_name x)"
    using assms(6) by auto
  show ?thesis
    using assms(1-5)
    by (simp add: createQuestion_def createQuestion_try_def action_def accept_all_def Let_def
        session_defs Question_create_def Tag_findOneAndUpdate_def
        find_None_all[OF a1] find_snoc_None[OF a2] find_snoc_None[OF a3]
        update_first_snoc_None[OF a2]
        TagQuestion_insertMany_def Question_push_tags_def new_oid_after_tag)
qed

theorem createQuestion_python_python_ai_witness:
  "map (\<lambda>t. (t_name t, t_questions t))
     (Tags (database (snd (createQuestion (fragment_platform True) accept_all (Some ''u1'')
        \<lparr>p_title = ''t'', p_content = ''c'', p_tags = [''Python'', ''python'', ''AI'']\<rparr>
        empty_world))))
     = [(''Python'', 2), (''AI'', 1)]
   \<and> length (TagQuestions (database (snd (createQuestion (fragment_platform True) accept_all
        (Some ''u1'')
        \<lparr>p_title = ''t'', p_content = ''c'', p_tags = [''Python'', ''python'', ''AI'']\<rparr>
        empty_world)))) = 3"
proof -
  obtain m1 where 1: "RegExp_i (fragment_platform True) ''^Python$'' = Inr m1"
    using fragment_Python by blast
  obtain m2 where 2: "RegExp_i (fragment_platform True) ''^python$'' = Inr m2" "m2 ''Python''"
    using fragment_python by blast
  obtain m3 where 3: "RegExp_i (fragment_platform True) ''^AI$'' = Inr m3" "\<not> m3 ''Python''"
    using fragment_AI by blast
  have "\<forall>t \<in> set (Tags (database empty_world)).
          \<not> m1 (t_name t) \<and> \<not> m2 (t_name t) \<and> \<not> m3 (t_name t)"
    by (simp add: empty_world_def)
  from createQuestion_python_python_ai [OF 1 2(1) 3(1) 2(2) 3(2) this, of "''u1''" "''t''" "''c''"]
  show ?thesis by (auto simp: empty_world_def)
qed

text \<open>The claim as stated fails there: the two counters are not both 1.\<close>

theorem createQuestion_python_counter_counterexample:
  "map t_questions
     (Tags (database (snd (createQuestion (fragment_platform True) accept_all (Some ''u1'')
        \<lparr>p_title = ''t'', p_content = ''c'', p_tags = [''Python'', ''python'', ''AI'']\<rparr>
        empty_world))))
     \<noteq> [1, 1]"
  by (simp add: create_python_python_ai)

text \<open>
  C4, as amended. Let tag ids be unique and let every counter be non-negative and equal
  to the number of join records that reference its tag. After a committed create this
  holds again, on every platform. Nothing bounds the number of join records of one
  (tag, question) pair: create inserts one per supplied name. Committed edits are left
  out of the statement.
\<close>

theorem committed_create_counters_match:
  assumes "unique_tag_ids (database w)" and "counters_match (database w)"
    and "succeeded (fst (createQuestion P schema caller params w))"
  shows "unique_tag_ids (database (snd (createQuestion P schema caller params w)))
       \<and> counters_match (database (snd (createQuestion P schema caller params w)))"
  using createQuestion_SuccessD[OF assms(3)] createQuestion_try_counters[OF assms(1,2)]
  by metis

theorem committed_create_counters_match_witness:
  "unique_tag_ids (database (snd (createQuestion (fragment_platform True) accept_all (Some ''u1'')
        \<lparr>p_title = ''t'', p_content = ''c'', p_tags = [''go'', ''go'']\<rparr> empty_world)))
   \<and> counters_match (database (snd (createQuestion (fragment_platform True) accept_all (Some ''u1'')
        \<lparr>p_title = ''t'', p_content = ''c'', p_tags = [''go'', ''go'']\<rparr> empty_world)))"
proof -
  have e: "unique_tag_ids (database empty_world)" "counters_match (database empty_world)"
    by (simp_all add: unique_tag_ids_def counters_match_def empty_world_def)
  have s: "succeeded (fst (createQuestion (fragment_platform True) accept_all (Some ''u1'')
        \<lparr>p_title = ''t'', p_content = ''c'', p_tags = [''go'', ''go'']\<rparr> empty_world))"
    unfolding create_go_go by (simp add: succeeded_def)
  show ?thesis by (rule committed_create_counters_match [OF e s])
qed

text \<open>
  The claim as stated fails after committed calls. Created with the name go supplied
  twice, the pair (go, question) has two join records; and when that question is then
  edited to the tag rust, the commit leaves go with the counter 1 and no join record.
\<close>

theorem committed_join_records_counterexample:
  "\<not> distinct (TagQuestions (database (snd (createQuestion (fragment_platform True) accept_all
        (Some ''u1'') \<lparr>p_title = ''t'', p_content = ''c'', p_tags = [''go'', ''go'']\<rparr>
        empty_world))))
   \<and> \<not> counters_match (database (snd (editQuestion (fragment_platform True) accept_all
        (Some ''u1'')
        \<lparr>p_title = ''t'', p_content = ''c'', p_tags = [''rust''], p_questionId = 1\<rparr>
        (snd (createQuestion (fragment_platform True) accept_all
          (Some ''u1'') \<lparr>p_title = ''t'', p_content = ''c'', p_tags = [''go'', ''go'']\<rparr>
          empty_world)))))"
  unfolding create_go_go snd_conv edit_go_go_to_rust
  by (simp add: world_go_go_def counters_match_def join_count_def)

text \<open>
  C5. The value createQuestion returns is the document as \<open>Question.create\<close> returned
  it, before any tag was resolved: its tags field is empty, while the stored question
  lists the resolved tag ids. This holds on every platform that reads go and rust as
  patterns of which \<open>^rust$\<close> does not match go.
\<close>

theorem createQuestion_returns_no_tags:
  assumes "RegExp_i P ''^go$'' = Inr mg" and "RegExp_i P ''^rust$'' = Inr mr" and "\<not> mr ''go''"
  shows "fst (createQuestion P accept_all (Some ''u1'')
          \<lparr>p_title = ''t'', p_content = ''c'', p_tags = [''go'', ''rust'']\<rparr> empty_world)
     = Success \<lparr>q_id = 1, q_title = ''t'', q_content = ''c'', q_author = ''u1'', q_tags = [],
                 q_views = 0, q_answers = 0, q_upvotes = 0, q_downvotes = 0\<rparr>
   \<and> map q_tags (Questions (database (snd (createQuestion P accept_all (Some ''u1'')
          \<lparr>p_title = ''t'', p_content = ''c'', p_tags = [''go'', ''rust'']\<rparr> empty_world))))
     = [[2, 3]]"
  using assms
  by (simp add: action_defs store_defs session_defs empty_world_def)

theorem createQuestion_returns_no_tags_witness:
  "fst (createQuestion (fragment_platform True) accept_all (Some ''u1'')
          \<lparr>p_title = ''t'', p_content = ''c'', p_tags = [''go'', ''rust'']\<rparr> empty_world)
     = Success \<lparr>q_id = 1, q_title = ''t'', q_content = ''c'', q_author = ''u1'', q_tags = [],
                 q_views = 0, q_answers = 0, q_upvotes = 0, q_downvotes = 0\<rparr>
   \<and> map q_tags (Questions (database (snd (createQuestion (fragment_platform True) accept_all
          (Some ''u1'')
          \<lparr>p_title = ''t'', p_content = ''c'', p_tags = [''go'', ''rust'']\<rparr> empty_world))))
     = [[2, 3]]"
proof -
  obtain mg where g: "RegExp_i (fragment_platform True) ''^go$'' = Inr mg"
    using fragment_go by blast
  obtain mr where r: "RegExp_i (fragment_platform True) ''^rust$'' = Inr mr" "\<not> mr ''go''"
    using fragment_rust by blast
  show ?thesis by (rule createQuestion_returns_no_tags [OF g r])
qed

text \<open>
  C6. The resolver is claimed to match a tag exactly when the names are equal ignoring
  letter case, also for names with pattern syntax. The name is put into the pattern
  as it is: on every platform on which \<open>^a.c$\<close> matches abc, as it does in ECMAScript,
  resolving the name \<open>a.c\<close> in a store whose only tag is abc increments the counter of
  abc and creates no tag.
\<close>

theorem resolve_unescaped_name:
  assumes "RegExp_i P ''^a.c$'' = Inr m" and "m ''abc''"
  shows "Tag_findOneAndUpdate P now ''a.c'' db_abc
   = Inr (\<lparr>t_id = 1, t_name = ''abc'', t_questions = 2, t_createdAt = 0\<rparr>,
          \<lparr>Tags = [\<lparr>t_id = 1, t_name = ''abc'', t_questions = 2, t_createdAt = 0\<rparr>],
           Questions = [], TagQuestions = [(1, 7)]\<rparr>)"
  using assms by (simp add: Tag_findOneAndUpdate_def db_abc_def)

theorem resolve_unescaped_name_witness:
  "Tag_findOneAndUpdate (fragment_platform True) 0 ''a.c'' db_abc
   = Inr (\<lparr>t_id = 1, t_name = ''abc'', t_questions = 2, t_createdAt = 0\<rparr>,
          \<lparr>Tags = [\<lparr>t_id = 1, t_name = ''abc'', t_questions = 2, t_createdAt = 0\<rparr>],
           Questions = [], TagQuestions = [(1, 7)]\<rparr>)"
proof -
  obtain m where m: "RegExp_i (fragment_platform True) ''^a.c$'' = Inr m" "m ''abc''"
    using fragment_a_dot_c by blast
  show ?thesis by (rule resolve_unescaped_name [OF m])
qed

text \<open>
  C7. When the loaded question's author is not the caller, editQuestion returns the
  envelope of the error thrown by the ownership check, after the calls startSession,
  startTransaction, abortTransaction and endSession; the committed database, with
  every question field, tag counter and join record, is the one before the call.
\<close>

theorem editQuestion_ownership:
  assumes "schema params"
    and "find (\<lambda>q. q_id q = p_questionId params) (Questions (database w)) = Some question"
    and "q_author question \<noteq> u"
  shows "editQuestion P schema (Some u) params w =
           (ErrorResponse (Error ''Unauthorized''),
            w\<lparr>session_calls :=
                 session_calls w @ [StartSession, StartTransaction, AbortTransaction, EndSession]\<rparr>)"
  using assms
  by (simp add: editQuestion_def action_def handleError_def Let_def session_defs editQuestion_try_def)

theorem editQuestion_ownership_witness:
  "editQuestion (fragment_platform True) accept_all (Some ''u2'')
     \<lparr>p_title = ''x'', p_content = ''y'', p_tags = [''wasm''], p_questionId = 1\<rparr> world_go_rust
   = (ErrorResponse (Error ''Unauthorized''),
      world_go_rust\<lparr>session_calls :=
        session_calls world_go_rust @ [StartSession, StartTransaction, AbortTransaction, EndSession]\<rparr>)"
proof -
  have "accept_all \<lparr>p_title = ''x'', p_content = ''y'', p_tags = [''wasm''], p_questionId = 1\<rparr>"
    by (simp add: accept_all_def)
  moreover have "find (\<lambda>q. q_id q = p_questionId
        \<lparr>p_title = ''x'', p_content = ''y'', p_tags = [''wasm''], p_questionId = 1\<rparr>)
      (Questions (database world_go_rust))
    = Some \<lparr>q_id = 1, q_title = ''t'', q_content = ''c'', q_author = ''u1'',
             q_tags = [2, 3], q_views = 0, q_answers = 0, q_upvotes = 0, q_downvotes = 0\<rparr>"
    by (simp add: world_go_rust_def)
  moreover have "q_author \<lparr>q_id = 1, q_title = ''t'', q_content = ''c'', q_author = ''u1'',
             q_tags = [2, 3], q_views = 0, q_answers = 0, q_upvotes = 0, q_downvotes = 0\<rparr> \<noteq> ''u2''"
    by simp
  ultimately show ?thesis
    by (rule editQuestion_ownership)
qed

text \<open>
  C8. With page \<open>p\<close> and page size \<open>s\<close>, both at least 1, and \<open>N\<close> tags matching the
  filter, getTags succeeds with \<open>min s (max 0 (N - (p - 1) * s))\<close> tags and
  \<open>isNext = (N > (p - 1) * s + returned)\<close>. An absent page is 1, an absent page size 10.
\<close>

theorem getTags_pagination:
  assumes "schema params"
    and "p = (case s_page params of None \<Rightarrow> 1 | Some x \<Rightarrow> x)"
    and "s = (case s_pageSize params of None \<Rightarrow> 10 | Some x \<Rightarrow> x)"
    and "1 \<le> p" and "1 \<le> s"
    and "filterQuery store_regex (s_query params) = Inr matching"
    and "N = int (length (filter matching (Tags (database w))))"
  shows "\<exists>ts. getTags schema store_regex caller params w
                 = Success (ts, N > (p - 1) * s + int (length ts))
              \<and> int (length ts) = min s (max 0 (N - (p - 1) * s))"
proof -
  define k where "k = (p - 1) * s"
  have k: "0 \<le> k" using assms(4,5) by (simp add: k_def)
  let ?found = "sort_tags (sort_of (s_filter params)) (filter matching (Tags (database w)))"
  have r: "skip_limit k s ?found = Inr (take (nat s) (drop (nat k) ?found))"
    using k assms(5) by (simp add: skip_limit_def)
  have l: "int (length (take (nat s) (drop (nat k) ?found))) = min s (max 0 (N - k))"
    using k assms(5,7) by (simp add: length_sort_tags)
  show ?thesis
    using assms(1,2,3,6,7) r l
    by (simp add: getTags_def action_def Let_def k_def)
qed

text \<open>The scenario of the claim: page 2 with page size 10 over 15 tags gives 5 tags
  and \<open>isNext = False\<close>.\<close>

theorem getTags_pagination_witness:
  "\<exists>ts. getTags accept_all fragment_regex None
           \<lparr>s_page = Some 2, s_pageSize = Some 10, s_query = None, s_filter = None\<rparr> fifteen_tags
          = Success (ts, False)
       \<and> int (length ts) = 5"
  using getTags_pagination [of accept_all
      "\<lparr>s_page = Some 2, s_pageSize = Some 10, s_query = None, s_filter = None\<rparr>"
      2 10 fragment_regex "\<lambda>t. True" 15 fifteen_tags None]
  by (auto simp add: accept_all_def filterQuery_def fifteen_tags_def)

text \<open>
  C9. Whatever the outcome of editQuestion, the stored questions keep every field but
  title, content and tags, the author among them; and the title and content step
  changes neither the document nor the store when the supplied title and content
  equal the stored ones.
\<close>

theorem editQuestion_frame:
  "map other_fields (Questions (database (snd (editQuestion P schema caller params w))))
     = map other_fields (Questions (database w))
   \<and> map q_author (Questions (database (snd (editQuestion P schema caller params w))))
     = map q_author (Questions (database w))
   \<and> (q_title question = title \<and> q_content question = content \<longrightarrow>
        update_title_content question title content d = (question, d))"
proof -
  have f: "map other_fields (Questions (database (snd (editQuestion P schema caller params w))))
     = map other_fields (Questions (database w))"
    using editQuestion_database_cases[of P schema caller params w] editQuestion_try_frame
    by metis
  have "map q_author (map other_fields (Questions (database (snd (editQuestion P schema caller params w)))))
     = map q_author (map other_fields (Questions (database w)))"
    by (simp only: f)
  then have "map q_author (Questions (database (snd (editQuestion P schema caller params w))))
     = map q_author (Questions (database w))"
    by (simp add: other_fields_def comp_def)
  with f show ?thesis by (simp add: update_title_content_def)
qed

text \<open>An edit of the question of \<open>world_go_rust\<close> by its author with the stored title
  and content and the tags rust and wasm.\<close>

theorem editQuestion_frame_witness:
  "map q_author (Questions (database (snd (editQuestion (fragment_platform True) accept_all (Some ''u1'')
       \<lparr>p_title = ''t'', p_content = ''c'', p_tags = [''rust'', ''wasm''], p_questionId = 1\<rparr>
       world_go_rust))))
     = [''u1'']
   \<and> update_title_content
        \<lparr>q_id = 1, q_title = ''t'', q_content = ''c'', q_author = ''u1'', q_tags = [2, 3],
          q_views = 0, q_answers = 0, q_upvotes = 0, q_downvotes = 0\<rparr>
        ''t'' ''c'' (database world_go_rust)
     = (\<lparr>q_id = 1, q_title = ''t'', q_content = ''c'', q_author = ''u1'', q_tags = [2, 3],
          q_views = 0, q_answers = 0, q_upvotes = 0, q_downvotes = 0\<rparr>,
        database world_go_rust)"
  using editQuestion_frame [of "fragment_platform True" accept_all "Some ''u1''"
      "\<lparr>p_title = ''t'', p_content = ''c'', p_tags = [''rust'', ''wasm''], p_questionId = 1\<rparr>"
      world_go_rust
      "\<lparr>q_id = 1, q_title = ''t'', q_content = ''c'', q_author = ''u1'', q_tags = [2, 3],
         q_views = 0, q_answers = 0, q_upvotes = 0, q_downvotes = 0\<rparr>"
      "''t''" "''c''" "database world_go_rust"]
  by (simp add: world_go_rust_def)

text \<open>
  C10. Without a caller identity getQuestion returns an error envelope: the validator's
  failure for a missing session, or its validation failure when the schema rejects the
  parameters. The result does not depend on the store.
\<close>

theorem getQuestion_requires_session:
  "getQuestion schema None params w
     = ErrorResponse (if schema params then UnauthorizedError else ValidationError)"
  by (simp add: getQuestion_def action_def handleError_def)

theorem getQuestion_requires_session_witness:
  "getQuestion accept_all None \<lparr>g_questionId = 1\<rparr> world_go_rust = ErrorResponse UnauthorizedError"
  using getQuestion_requires_session [of accept_all "\<lparr>g_questionId = 1\<rparr>" world_go_rust]
  by (simp add: accept_all_def)

end
